theory Spec2Isabelle
  imports Main "HOL-Library.Word" "HOL-Library.Signed_Division"
begin

section \<open>Arduino core helpers used by the drivers\<close>

text \<open>
  The macro \<^verbatim>\<open>constrain(amt,low,high)\<close> of the Arduino core:
  \<^verbatim>\<open>((amt)<(low)?(low):((amt)>(high)?(high):(amt)))\<close>.
  Its operands are promoted to \<^verbatim>\<open>int\<close> before they are compared, so the model
  works on the integer values.
\<close>

definition constrain :: "int \<Rightarrow> int \<Rightarrow> int \<Rightarrow> int" where
  "constrain amt low high = (if amt < low then low else if amt > high then high else amt)"

text \<open>
  \<^verbatim>\<open>long\<close> is 32 bits wide on the boards the drivers are written for. \<open>long_of\<close>
  reads an integer as the two's complement \<^verbatim>\<open>long\<close> the hardware keeps of it.
\<close>

definition long_of :: "int \<Rightarrow> int" where
  "long_of x = (x + 2 ^ 31) mod 2 ^ 32 - 2 ^ 31"

text \<open>
  The function \<^verbatim>\<open>map\<close> of the Arduino core,
  \<^verbatim>\<open>(x - in_min) * (out_max - out_min) / (in_max - in_min) + out_min\<close>
  on \<^verbatim>\<open>long\<close>: every intermediate result wraps at 32 bits and the division
  truncates towards zero.
\<close>

definition map_long :: "int \<Rightarrow> int \<Rightarrow> int \<Rightarrow> int \<Rightarrow> int \<Rightarrow> int" where
  "map_long x in_min in_max out_min out_max =
     long_of (long_of (long_of (long_of (x - in_min) * long_of (out_max - out_min))
                sdiv long_of (in_max - in_min)) + out_min)"

section \<open>The DC motor controller\<close>

subsection \<open>Configuration\<close>

text \<open>
  Modelled from the spec: the macros \<^verbatim>\<open>MIN_SPEED\<close>, \<^verbatim>\<open>MAX_SPEED\<close>,
  \<^verbatim>\<open>MIN_ACCELERATION\<close> and \<^verbatim>\<open>MAX_ACCELERATION\<close> are defined in the header of
  the motor class, which is not among the sources. The spec and the comments of
  \<^verbatim>\<open>setSpeed\<close> and \<^verbatim>\<open>setAcceleration\<close> give the speed range as -100 to 100 and
  the acceleration range as 0 to 100.
\<close>

definition MIN_SPEED :: int where "MIN_SPEED = - 100"
definition MAX_SPEED :: int where "MAX_SPEED = 100"
definition MIN_ACCELERATION :: int where "MIN_ACCELERATION = 0"
definition MAX_ACCELERATION :: int where "MAX_ACCELERATION = 100"

text \<open>
  The two interval macros of the driver header that is among the sources
  (\<^verbatim>\<open>#define MIN_UPDATING_INTERVAL 50000\<close>, \<^verbatim>\<open>#define MAX_UPDATING_INTERVAL 100\<close>):
  the interval at minimum acceleration and the interval at maximum acceleration.
  \<^verbatim>\<open>Motor::update\<close> names its two delays \<^verbatim>\<open>MIN_UPDATE_DELAY\<close> and
  \<^verbatim>\<open>MAX_UPDATE_DELAY\<close>; their definitions are not among the sources, so \<open>Motor_update\<close>
  below takes the two delays as parameters, in the order of the call of \<^verbatim>\<open>map\<close>.
\<close>

definition MIN_UPDATING_INTERVAL :: int where "MIN_UPDATING_INTERVAL = 50000"
definition MAX_UPDATING_INTERVAL :: int where "MAX_UPDATING_INTERVAL = 100"


subsection \<open>State\<close>

text \<open>
  A PWM output is an object of the board support package. It is modelled by the
  commands it has received, oldest first, so that a hardware write is visible as a
  new entry.
\<close>

datatype pwm_cmd = Begin int int | End | Pulse_perc int

type_synonym PwmOut = "pwm_cmd list"

definition pwm_begin :: "int \<Rightarrow> int \<Rightarrow> PwmOut \<Rightarrow> PwmOut" where
  "pwm_begin f d p = p @ [Begin f d]"

definition pwm_end :: "PwmOut \<Rightarrow> PwmOut" where
  "pwm_end p = p @ [End]"

definition pulse_perc :: "int \<Rightarrow> PwmOut \<Rightarrow> PwmOut" where
  "pulse_perc d p = p @ [Pulse_perc d]"

text \<open>The duty cycle a PWM output runs at: the one of the last command it received.\<close>

definition duty :: "PwmOut \<Rightarrow> int option" where
  "duty p =
     (if p = [] then None
      else (case last p of Begin f d \<Rightarrow> Some d | End \<Rightarrow> None | Pulse_perc d \<Rightarrow> Some d))"

text \<open>
  The fields of \<^verbatim>\<open>Motor\<close>. \<^verbatim>\<open>current_speed_\<close> and \<^verbatim>\<open>setpoint_speed_\<close> are
  \<^verbatim>\<open>int8_t\<close> (read with \<open>sint\<close>), \<^verbatim>\<open>acceleration_\<close> is \<^verbatim>\<open>uint8_t\<close>.
  \<open>last_ms\<close> is the function-local \<^verbatim>\<open>static unsigned long last_ms\<close> of
  \<^verbatim>\<open>Motor::update\<close>.
\<close>

text \<open>
  Modelled from the spec: the declarations of \<^verbatim>\<open>update_delay_\<close> and
  \<^verbatim>\<open>frequency_\<close> are in the header of the motor class, which is not among the
  sources. \<^verbatim>\<open>update_delay_\<close> is compared with an elapsed time and is kept at the
  width of the clock reading (\<^verbatim>\<open>unsigned long\<close>); \<^verbatim>\<open>frequency_\<close> is kept as an
  integer.
\<close>

record motor =
  forwardPwm :: PwmOut
  backwardPwm :: PwmOut
  enabled :: bool
  status :: bool
  current_speed :: "8 word"
  setpoint_speed :: "8 word"
  acceleration :: "8 word"
  update_delay :: "32 word"
  frequency :: int
  last_ms :: "32 word"

subsection \<open>Operations\<close>

definition Motor_init :: "motor \<Rightarrow> bool \<times> motor" where
  "Motor_init m =
     (let m1 = m\<lparr>acceleration := word_of_int MAX_ACCELERATION\<rparr>;
          m2 = m1\<lparr>frequency := 33000\<rparr>;
          m3 = m2\<lparr>forwardPwm := pwm_begin (frequency m2) 0 (forwardPwm m2)\<rparr>;
          m4 = m3\<lparr>backwardPwm := pwm_begin (frequency m3) 0 (backwardPwm m3)\<rparr>;
          m5 = m4\<lparr>enabled := True\<rparr>
      in (enabled m5, m5))"

text \<open>The destructor \<^verbatim>\<open>Motor::~Motor\<close>.\<close>

definition Motor_destructor :: "motor \<Rightarrow> motor" where
  "Motor_destructor m =
     (let m1 = m\<lparr>forwardPwm := pwm_end (forwardPwm m)\<rparr>;
          m2 = m1\<lparr>backwardPwm := pwm_end (backwardPwm m1)\<rparr>
      in m2\<lparr>enabled := False\<rparr>)"

text \<open>
  \<^verbatim>\<open>Motor::update\<close>. \<^verbatim>\<open>millis()\<close> is read twice in a call that passes the time
  gate: \<open>t_gate\<close> is the reading compared with \<open>last_ms\<close>, \<open>t_store\<close> the reading
  stored in it. The subtraction is on \<^verbatim>\<open>unsigned long\<close> and wraps.
\<close>

definition Motor_update :: "int \<Rightarrow> int \<Rightarrow> 32 word \<Rightarrow> 32 word \<Rightarrow> motor \<Rightarrow> motor" where
  "Motor_update min_update_delay max_update_delay t_gate t_store m =
     (let m1 = m\<lparr>update_delay :=
                   word_of_int (map_long (uint (acceleration m)) MIN_ACCELERATION MAX_ACCELERATION
                                  min_update_delay max_update_delay)\<rparr>
      in if t_gate - last_ms m1 > update_delay m1 then
           (let m2 = m1\<lparr>last_ms := t_store\<rparr>;
                m3 = (if setpoint_speed m2 \<noteq> current_speed m2 then
                        (let m' = m2\<lparr>status := True\<rparr>
                         in if sint (setpoint_speed m') > sint (current_speed m') then
                              m'\<lparr>current_speed := current_speed m' + 1\<rparr>
                            else if sint (setpoint_speed m') < sint (current_speed m') then
                              m'\<lparr>current_speed := current_speed m' - 1\<rparr>
                            else m')
                      else m2\<lparr>status := False\<rparr>)
            in if sint (current_speed m3) < 0 then
                 (let m4 = m3\<lparr>forwardPwm := pulse_perc 0 (forwardPwm m3)\<rparr>
                  in m4\<lparr>backwardPwm := pulse_perc \<bar>sint (current_speed m4)\<bar> (backwardPwm m4)\<rparr>)
               else
                 (let m4 = m3\<lparr>forwardPwm := pulse_perc (sint (current_speed m3)) (forwardPwm m3)\<rparr>
                  in m4\<lparr>backwardPwm := pulse_perc 0 (backwardPwm m4)\<rparr>))
         else m1)"

definition Motor_setSpeed :: "8 word \<Rightarrow> motor \<Rightarrow> motor" where
  "Motor_setSpeed speed m =
     m\<lparr>setpoint_speed := word_of_int (constrain (sint speed) MIN_SPEED MAX_SPEED)\<rparr>"

definition Motor_setAcceleration :: "8 word \<Rightarrow> motor \<Rightarrow> motor" where
  "Motor_setAcceleration a m =
     m\<lparr>acceleration := word_of_int (constrain (uint a) MIN_ACCELERATION MAX_ACCELERATION)\<rparr>"

definition Motor_stop :: "motor \<Rightarrow> bool \<times> motor" where
  "Motor_stop m =
     (let m1 = m\<lparr>acceleration := word_of_int MAX_ACCELERATION\<rparr>;
          m2 = m1\<lparr>current_speed := 0\<rparr>;
          m3 = m2\<lparr>setpoint_speed := 0\<rparr>;
          m4 = m3\<lparr>enabled := False\<rparr>
      in (enabled m4, m4))"

definition Motor_isUpdating :: "motor \<Rightarrow> bool" where
  "Motor_isUpdating m = status m"

definition Motor_getSpeed :: "motor \<Rightarrow> 8 word" where
  "Motor_getSpeed m = current_speed m"

text \<open>
  A \<^verbatim>\<open>Motor\<close> object in static storage before any member function has run: every
  field is zero-initialised and no PWM command has been issued.
\<close>

definition zeroed :: motor where
  "zeroed = \<lparr>forwardPwm = [], backwardPwm = [], enabled = False, status = False,
              current_speed = 0, setpoint_speed = 0, acceleration = 0, update_delay = 0,
              frequency = 0, last_ms = 0\<rparr>"

subsection \<open>Sequences of calls\<close>

datatype motor_call =
    Init
  | Update "32 word" "32 word"
  | SetSpeed "8 word"
  | SetAcceleration "8 word"
  | Stop

fun Motor_call :: "int \<Rightarrow> int \<Rightarrow> motor_call \<Rightarrow> motor \<Rightarrow> motor" where
  "Motor_call dmin dmax Init m = snd (Motor_init m)"
| "Motor_call dmin dmax (Update t_gate t_store) m = Motor_update dmin dmax t_gate t_store m"
| "Motor_call dmin dmax (SetSpeed v) m = Motor_setSpeed v m"
| "Motor_call dmin dmax (SetAcceleration a) m = Motor_setAcceleration a m"
| "Motor_call dmin dmax Stop m = snd (Motor_stop m)"

fun Motor_calls :: "int \<Rightarrow> int \<Rightarrow> motor_call list \<Rightarrow> motor \<Rightarrow> motor" where
  "Motor_calls dmin dmax [] m = m"
| "Motor_calls dmin dmax (c # cs) m = Motor_calls dmin dmax cs (Motor_call dmin dmax c m)"

text \<open>
  The time gate of \<^verbatim>\<open>Motor::update\<close>, as a predicate on the state a call starts in
  and the clock reading it compares: the call qualifies when the gate is open.
\<close>

definition qualifies :: "int \<Rightarrow> int \<Rightarrow> 32 word \<Rightarrow> motor \<Rightarrow> bool" where
  "qualifies dmin dmax t_gate m \<longleftrightarrow>
     t_gate - last_ms m >
       word_of_int (map_long (uint (acceleration m)) MIN_ACCELERATION MAX_ACCELERATION dmin dmax)"

text \<open>Repeated calls of \<^verbatim>\<open>update()\<close>, one per pair of clock readings.\<close>

fun ticks :: "int \<Rightarrow> int \<Rightarrow> (32 word \<times> 32 word) list \<Rightarrow> motor \<Rightarrow> motor" where
  "ticks dmin dmax [] m = m"
| "ticks dmin dmax ((t_gate, t_store) # ts) m =
     ticks dmin dmax ts (Motor_update dmin dmax t_gate t_store m)"

fun all_qualify :: "int \<Rightarrow> int \<Rightarrow> (32 word \<times> 32 word) list \<Rightarrow> motor \<Rightarrow> bool" where
  "all_qualify dmin dmax [] m \<longleftrightarrow> True"
| "all_qualify dmin dmax ((t_gate, t_store) # ts) m \<longleftrightarrow>
     qualifies dmin dmax t_gate m \<and>
     all_qualify dmin dmax ts (Motor_update dmin dmax t_gate t_store m)"

text \<open>
  A concrete state for the examples: a motor after \<^verbatim>\<open>init()\<close>, \<^verbatim>\<open>setSpeed(50)\<close>
  and one qualifying \<^verbatim>\<open>update()\<close>, with the intervals of the driver header.
\<close>

definition ramping :: motor where
  "ramping = Motor_calls MIN_UPDATING_INTERVAL MAX_UPDATING_INTERVAL
               [Init, SetSpeed 50, Update 101 101] zeroed"

text \<open>
  More concrete inputs for the examples: a motor after \<^verbatim>\<open>init()\<close>; a sequence of
  calls; and \<open>steady t n\<close>, the clock readings of \<open>n\<close> calls of \<^verbatim>\<open>update()\<close>,
  each 101 ms after the one before, the first 101 ms after \<open>t\<close>.
\<close>

definition started :: motor where
  "started = snd (Motor_init zeroed)"

definition demo_calls :: "motor_call list" where
  "demo_calls = [Init, SetSpeed 127, Update 101 101, Update 150 150, SetAcceleration 200,
                 Update 252 252]"

fun steady :: "32 word \<Rightarrow> nat \<Rightarrow> (32 word \<times> 32 word) list" where
  "steady t 0 = []"
| "steady t (Suc n) = (t + 101, t + 101) # steady (t + 101) n"

text \<open>The speed range of the data model, read on the \<^verbatim>\<open>int8_t\<close> fields.\<close>

definition in_speed_range :: "8 word \<Rightarrow> bool" where
  "in_speed_range v \<longleftrightarrow> MIN_SPEED \<le> sint v \<and> sint v \<le> MAX_SPEED"

definition speeds_in_range :: "motor \<Rightarrow> bool" where
  "speeds_in_range m \<longleftrightarrow> in_speed_range (current_speed m) \<and> in_speed_range (setpoint_speed m)"

section \<open>The ultrasonic distance sensor\<close>

subsection \<open>State\<close>

datatype SonarMode = MANUAL | AUTOMATIC

datatype level = LOW | HIGH

text \<open>What the sensor does on its pins, oldest first.\<close>

datatype io_event = DigitalWrite "8 word" level | PulseInLong "8 word" level

text \<open>
  The fields of \<^verbatim>\<open>UltrasonicSensor\<close>; \<open>sonar_status\<close> is its \<^verbatim>\<open>status_\<close> and
  \<open>last_us\<close> the function-local \<^verbatim>\<open>static unsigned long last_us\<close> of
  \<^verbatim>\<open>computeDistance\<close>. \<open>io\<close> is the trace of the pin operations.
\<close>

text \<open>
  Modelled from the spec: the declaration of \<^verbatim>\<open>distance_\<close> is in the header of the
  sensor class, which is not among the sources. The data model of the spec declares
  the distance as \<^verbatim>\<open>uint16\<close>, the type \<^verbatim>\<open>getDistance\<close> returns: the field is a
  16-bit word, read unsigned.
\<close>

record sensor =
  trigger_pin :: "8 word"
  echo_pin :: "8 word"
  mode :: SonarMode
  sonar_status :: bool
  distance :: "16 word"
  last_us :: "32 word"
  io :: "io_event list"

text \<open>
  What one call of \<^verbatim>\<open>computeDistance\<close> reads from the hardware: the readings of
  \<^verbatim>\<open>micros()\<close> in the order of the calls (the second and the fourth are read only
  when the gate before them is open) and the result of \<^verbatim>\<open>pulseInLong\<close>.
\<close>

record readings =
  us1 :: "32 word"
  us2 :: "32 word"
  us3 :: "32 word"
  us4 :: "32 word"
  pulse :: "32 word"

subsection \<open>Operations\<close>

text \<open>
  \<^verbatim>\<open>computeDistance\<close>. The conversion
  \<^verbatim>\<open>pulse_time * kSpeedOfSound * pow(10, -4) / 2\<close> is floating-point arithmetic on a
  constant of the absent header, followed by the conversion to the type of
  \<^verbatim>\<open>distance_\<close>; it is the parameter \<open>to_distance\<close>.
\<close>

definition computeDistance :: "(32 word \<Rightarrow> 16 word) \<Rightarrow> readings \<Rightarrow> sensor \<Rightarrow> sensor" where
  "computeDistance to_distance r s =
     (let s1 = s\<lparr>io := io s @ [DigitalWrite (trigger_pin s) LOW]\<rparr>;
          s2 = (if us1 r - last_us s1 > 2 then
                  (let s' = s1\<lparr>last_us := us2 r\<rparr>
                   in s'\<lparr>io := io s' @ [DigitalWrite (trigger_pin s') HIGH]\<rparr>)
                else s1);
          s3 = (if us3 r - last_us s2 > 10 then
                  (let s' = s2\<lparr>last_us := us4 r\<rparr>
                   in s'\<lparr>io := io s' @ [DigitalWrite (trigger_pin s') LOW]\<rparr>)
                else s2);
          s4 = s3\<lparr>io := io s3 @ [PulseInLong (echo_pin s3) HIGH]\<rparr>;
          pulse_time = pulse r
      in s4\<lparr>distance := to_distance pulse_time\<rparr>)"

definition UltrasonicSensor_update :: "(32 word \<Rightarrow> 16 word) \<Rightarrow> readings \<Rightarrow> sensor \<Rightarrow> sensor" where
  "UltrasonicSensor_update to_distance r s =
     (if mode s = AUTOMATIC then computeDistance to_distance r s
      else if sonar_status s then
        (let s1 = computeDistance to_distance r s in s1\<lparr>sonar_status := False\<rparr>)
      else s)"

definition setMode :: "SonarMode \<Rightarrow> sensor \<Rightarrow> sensor" where
  "setMode md s = s\<lparr>mode := md\<rparr>"

definition startMeasurement :: "sensor \<Rightarrow> sensor" where
  "startMeasurement s = (if mode s = MANUAL then s\<lparr>sonar_status := True\<rparr> else s)"

definition UltrasonicSensor_isUpdating :: "sensor \<Rightarrow> bool" where
  "UltrasonicSensor_isUpdating s = sonar_status s"

text \<open>
  \<^verbatim>\<open>getDistance\<close> stores the clamped value back in \<^verbatim>\<open>distance_\<close> and returns it
  as \<^verbatim>\<open>uint16_t\<close>. \<^verbatim>\<open>constrain\<close> compares the field after its promotion to
  \<^verbatim>\<open>int\<close>, which keeps its unsigned value.
\<close>

definition getDistance :: "sensor \<Rightarrow> 16 word \<times> sensor" where
  "getDistance s =
     (let s1 = s\<lparr>distance := word_of_int (constrain (uint (distance s)) 0 400)\<rparr>
      in (distance s1, s1))"

subsection \<open>Sequences of calls\<close>

datatype sensor_call =
    SUpdate readings
  | SetMode SonarMode
  | StartMeasurement
  | GetDistance

fun UltrasonicSensor_call :: "(32 word \<Rightarrow> 16 word) \<Rightarrow> sensor_call \<Rightarrow> sensor \<Rightarrow> sensor" where
  "UltrasonicSensor_call to_distance (SUpdate r) s = UltrasonicSensor_update to_distance r s"
| "UltrasonicSensor_call to_distance (SetMode md) s = setMode md s"
| "UltrasonicSensor_call to_distance StartMeasurement s = startMeasurement s"
| "UltrasonicSensor_call to_distance GetDistance s = snd (getDistance s)"

fun UltrasonicSensor_calls :: "(32 word \<Rightarrow> 16 word) \<Rightarrow> sensor_call list \<Rightarrow> sensor \<Rightarrow> sensor" where
  "UltrasonicSensor_calls to_distance [] s = s"
| "UltrasonicSensor_calls to_distance (c # cs) s =
     UltrasonicSensor_calls to_distance cs (UltrasonicSensor_call to_distance c s)"

text \<open>A sequence of calls that never leaves the mode \<open>AUTOMATIC\<close>.\<close>

fun stays_automatic :: "sensor_call list \<Rightarrow> bool" where
  "stays_automatic [] \<longleftrightarrow> True"
| "stays_automatic (SetMode md # cs) \<longleftrightarrow> md = AUTOMATIC \<and> stays_automatic cs"
| "stays_automatic (c # cs) \<longleftrightarrow> stays_automatic cs"

text \<open>The number of trigger/measure cycles on the pins: one echo measurement each.\<close>

fun is_measure :: "io_event \<Rightarrow> bool" where
  "is_measure (PulseInLong p l) \<longleftrightarrow> True"
| "is_measure (DigitalWrite p l) \<longleftrightarrow> False"

definition cycles :: "sensor \<Rightarrow> nat" where
  "cycles s = length (filter is_measure (io s))"

fun is_update :: "sensor_call \<Rightarrow> bool" where
  "is_update (SUpdate r) \<longleftrightarrow> True"
| "is_update c \<longleftrightarrow> False"

text \<open>
  Concrete inputs for the examples: an instance of the conversion (343 m/s, truncated
  to whole centimetres), a sensor in mode \<open>MANUAL\<close> with no measurement requested,
  the hardware readings of one cycle whose echo lasts 29155 microseconds (500 cm), and
  a sequence of calls.
\<close>

definition cm_of_pulse :: "32 word \<Rightarrow> 16 word" where
  "cm_of_pulse p = word_of_int (uint p * 343 div 20000)"

definition idle_sensor :: sensor where
  "idle_sensor = \<lparr>trigger_pin = 7, echo_pin = 8, mode = MANUAL, sonar_status = False,
                   distance = 0, last_us = 0, io = []\<rparr>"

definition echo :: readings where
  "echo = \<lparr>us1 = 100, us2 = 101, us3 = 120, us4 = 121, pulse = 29155\<rparr>"

definition demo_sensor_calls :: "sensor_call list" where
  "demo_sensor_calls =
     [StartMeasurement, SUpdate echo, GetDistance, SUpdate echo, SetMode AUTOMATIC]"

section \<open>Properties of the motor controller\<close>

subsection \<open>Signed bytes\<close>

lemma sint8_bounds: "- 128 \<le> sint (w :: 8 word) \<and> sint w \<le> 127"
  using sint_ge [of w] sint_lt [of w] by simp

lemma sint_succ:
  fixes c s :: "8 word"
  assumes "sint c < sint s"
  shows "sint (c + 1) = sint c + 1"
proof -
  have "sint c + 1 < 2 ^ 7" "- (2 ^ 7) \<le> sint c + 1"
    using assms sint8_bounds [of s] sint8_bounds [of c] by simp_all
  then have "signed_take_bit 7 (sint c + 1) = sint c + 1"
    by (rule_tac signed_take_bit_int_eq_self) simp_all
  then show ?thesis by (simp add: sint_word_add)
qed

lemma sint_pred:
  fixes c s :: "8 word"
  assumes "sint s < sint c"
  shows "sint (c - 1) = sint c - 1"
proof -
  have "sint c - 1 < 2 ^ 7" "- (2 ^ 7) \<le> sint c - 1"
    using assms sint8_bounds [of s] sint8_bounds [of c] by simp_all
  then have "signed_take_bit 7 (sint c - 1) = sint c - 1"
    by (rule_tac signed_take_bit_int_eq_self) simp_all
  then show ?thesis by (simp add: sint_word_diff)
qed

lemma sint_word_of_int8:
  assumes "- 128 \<le> k" "k \<le> 127"
  shows "sint (word_of_int k :: 8 word) = k"
proof -
  have "signed_take_bit 7 k = k"
    using assms by (intro signed_take_bit_int_eq_self) simp_all
  then show ?thesis by (simp add: sint_sbintrunc')
qed

subsection \<open>What one call of update does to each field\<close>

lemma update_current_speed:
  "current_speed (Motor_update dmin dmax tg ts m) =
     (if qualifies dmin dmax tg m then
        (if sint (setpoint_speed m) > sint (current_speed m) then current_speed m + 1
         else if sint (setpoint_speed m) < sint (current_speed m) then current_speed m - 1
         else current_speed m)
      else current_speed m)"
  by (auto simp: Motor_update_def qualifies_def Let_def)

lemma update_status:
  "status (Motor_update dmin dmax tg ts m) =
     (if qualifies dmin dmax tg m then setpoint_speed m \<noteq> current_speed m else status m)"
  by (auto simp: Motor_update_def qualifies_def Let_def)

lemma update_setpoint_speed:
  "setpoint_speed (Motor_update dmin dmax tg ts m) = setpoint_speed m"
  by (simp add: Motor_update_def Let_def)

lemma update_acceleration:
  "acceleration (Motor_update dmin dmax tg ts m) = acceleration m"
  by (simp add: Motor_update_def Let_def)

lemma update_closed_pwm:
  "\<not> qualifies dmin dmax tg m \<Longrightarrow>
     forwardPwm (Motor_update dmin dmax tg ts m) = forwardPwm m \<and>
     backwardPwm (Motor_update dmin dmax tg ts m) = backwardPwm m"
  by (simp add: Motor_update_def qualifies_def Let_def)

lemma update_sint_current_speed:
  "sint (current_speed (Motor_update dmin dmax tg ts m)) =
     (if qualifies dmin dmax tg m then
        (if sint (setpoint_speed m) > sint (current_speed m) then sint (current_speed m) + 1
         else if sint (setpoint_speed m) < sint (current_speed m) then sint (current_speed m) - 1
         else sint (current_speed m))
      else sint (current_speed m))"
  by (simp add: update_current_speed sint_succ sint_pred)

lemma setSpeed_in_range: "in_speed_range (setpoint_speed (Motor_setSpeed v m))"
  by (simp add: Motor_setSpeed_def in_speed_range_def constrain_def MIN_SPEED_def MAX_SPEED_def
      sint_word_of_int8)

lemma ramping_eq:
  "ramping = \<lparr>forwardPwm = [Begin 33000 0, Pulse_perc 1], backwardPwm = [Begin 33000 0, Pulse_perc 0],
               enabled = True, status = True, current_speed = 1, setpoint_speed = 50,
               acceleration = 100, update_delay = 100, frequency = 33000, last_ms = 101\<rparr>"
  by (simp add: ramping_def Motor_update_def Motor_init_def
      Motor_setSpeed_def zeroed_def Let_def constrain_def map_long_def long_of_def
      MIN_SPEED_def MAX_SPEED_def MIN_ACCELERATION_def MAX_ACCELERATION_def
      MIN_UPDATING_INTERVAL_def MAX_UPDATING_INTERVAL_def pwm_begin_def pulse_perc_def)

lemmas eval_defs = qualifies_def Motor_stop_def Motor_setSpeed_def Let_def map_long_def long_of_def
  constrain_def MIN_SPEED_def MAX_SPEED_def MIN_ACCELERATION_def MAX_ACCELERATION_def
  MIN_UPDATING_INTERVAL_def MAX_UPDATING_INTERVAL_def

lemma ramping_gate: "qualifies MIN_UPDATING_INTERVAL MAX_UPDATING_INTERVAL 202 ramping"
  by (simp add: ramping_eq eval_defs)

subsection \<open>stop()\<close>

text \<open>
  What \<^verbatim>\<open>stop()\<close> writes, in every state: both speeds are 0 afterwards, the
  acceleration is at its maximum, the driver is disabled and the returned value is
  false.
\<close>

lemma stop_resets_fields:
  "current_speed (snd (Motor_stop m)) = 0 \<and>
   setpoint_speed (snd (Motor_stop m)) = 0 \<and>
   uint (acceleration (snd (Motor_stop m))) = MAX_ACCELERATION \<and>
   \<not> enabled (snd (Motor_stop m)) \<and>
   \<not> fst (Motor_stop m)"
  by (simp add: Motor_stop_def Let_def MAX_ACCELERATION_def)

text \<open>
  Claim C2 asks that after any call to \<^verbatim>\<open>stop()\<close> the speeds are 0, the
  acceleration is at its maximum, the driver is disabled, the returned value is false
  and \<^verbatim>\<open>isUpdating()\<close> returns false. The code at \<^verbatim>\<open>init()\<close>, \<^verbatim>\<open>setSpeed(50)\<close>, one
  \<^verbatim>\<open>update()\<close> at 101 ms and \<^verbatim>\<open>stop()\<close>: everything holds but the last part.
  \<^verbatim>\<open>stop()\<close> does not write \<^verbatim>\<open>status_\<close>, and \<^verbatim>\<open>isUpdating()\<close> returns true for a
  motor whose two speeds are both 0.
\<close>

theorem stop_leaves_flag_stale:
  "current_speed (snd (Motor_stop ramping)) = 0 \<and>
   setpoint_speed (snd (Motor_stop ramping)) = 0 \<and>
   uint (acceleration (snd (Motor_stop ramping))) = MAX_ACCELERATION \<and>
   \<not> enabled (snd (Motor_stop ramping)) \<and>
   \<not> fst (Motor_stop ramping) \<and>
   Motor_isUpdating (snd (Motor_stop ramping))"
  by (simp add: ramping_eq Motor_isUpdating_def Motor_stop_def Let_def MAX_ACCELERATION_def)

text \<open>
  Claim C9: \<^verbatim>\<open>stop()\<close> changes the four fields \<^verbatim>\<open>acceleration_\<close>,
  \<^verbatim>\<open>current_speed_\<close>, \<^verbatim>\<open>setpoint_speed_\<close> and \<^verbatim>\<open>enabled_\<close> and nothing else: no
  command reaches either PWM output. \<^verbatim>\<open>setSpeed\<close>, \<^verbatim>\<open>setAcceleration\<close> and an
  \<^verbatim>\<open>update()\<close> that does not pass the time gate issue no command either, so the
  duty cycles stay as last commanded until an \<^verbatim>\<open>update()\<close> passes the gate, which
  writes both outputs once. \<^verbatim>\<open>update\<close> and \<^verbatim>\<open>setSpeed\<close> never read
  \<^verbatim>\<open>enabled_\<close>: they do the same whatever its value.
\<close>

theorem stop_touches_fields_only:
  "snd (Motor_stop m) =
     m\<lparr>acceleration := word_of_int MAX_ACCELERATION, current_speed := 0,
       setpoint_speed := 0, enabled := False\<rparr> \<and>
   forwardPwm (snd (Motor_stop m)) = forwardPwm m \<and>
   backwardPwm (snd (Motor_stop m)) = backwardPwm m \<and>
   duty (forwardPwm (snd (Motor_stop m))) = duty (forwardPwm m) \<and>
   duty (backwardPwm (snd (Motor_stop m))) = duty (backwardPwm m) \<and>
   forwardPwm (Motor_setSpeed v n) = forwardPwm n \<and>
   backwardPwm (Motor_setSpeed v n) = backwardPwm n \<and>
   forwardPwm (Motor_setAcceleration a n) = forwardPwm n \<and>
   backwardPwm (Motor_setAcceleration a n) = backwardPwm n \<and>
   (\<not> qualifies dmin dmax tg n \<longrightarrow>
      forwardPwm (Motor_update dmin dmax tg ts n) = forwardPwm n \<and>
      backwardPwm (Motor_update dmin dmax tg ts n) = backwardPwm n) \<and>
   (qualifies dmin dmax tg n \<longrightarrow>
      length (forwardPwm (Motor_update dmin dmax tg ts n)) = Suc (length (forwardPwm n)) \<and>
      length (backwardPwm (Motor_update dmin dmax tg ts n)) = Suc (length (backwardPwm n))) \<and>
   Motor_update dmin dmax tg ts (n\<lparr>enabled := b\<rparr>) = (Motor_update dmin dmax tg ts n)\<lparr>enabled := b\<rparr> \<and>
   Motor_setSpeed v (n\<lparr>enabled := b\<rparr>) = (Motor_setSpeed v n)\<lparr>enabled := b\<rparr>"
  by (simp add: Motor_stop_def Motor_setSpeed_def Motor_setAcceleration_def Let_def
      Motor_update_def qualifies_def pulse_perc_def)

theorem stop_touches_fields_only_witness:
  "qualifies MIN_UPDATING_INTERVAL MAX_UPDATING_INTERVAL 202 (Motor_setSpeed 50 (snd (Motor_stop ramping))) \<and>
   \<not> qualifies MIN_UPDATING_INTERVAL MAX_UPDATING_INTERVAL 150 (Motor_setSpeed 50 (snd (Motor_stop ramping))) \<and>
   current_speed (snd (Motor_stop ramping)) = 0 \<and>
   duty (forwardPwm (snd (Motor_stop ramping))) = Some 1 \<and>
   forwardPwm (Motor_update MIN_UPDATING_INTERVAL MAX_UPDATING_INTERVAL 150 150
                 (Motor_setSpeed 50 (snd (Motor_stop ramping)))) = forwardPwm ramping \<and>
   length (forwardPwm (Motor_update MIN_UPDATING_INTERVAL MAX_UPDATING_INTERVAL 202 202
                 (Motor_setSpeed 50 (snd (Motor_stop ramping))))) = Suc (length (forwardPwm ramping))"
proof -
  let ?n = "Motor_setSpeed 50 (snd (Motor_stop ramping))"
  have opened: "qualifies MIN_UPDATING_INTERVAL MAX_UPDATING_INTERVAL 202 ?n"
    by (simp add: ramping_eq eval_defs)
  have closed: "\<not> qualifies MIN_UPDATING_INTERVAL MAX_UPDATING_INTERVAL 150 ?n"
    by (simp add: ramping_eq eval_defs)
  note at_202 = stop_touches_fields_only [where m = ramping and n = ?n and v = 50 and a = 0
        and b = True and dmin = MIN_UPDATING_INTERVAL and dmax = MAX_UPDATING_INTERVAL
        and tg = 202 and ts = 202]
  note at_150 = stop_touches_fields_only [where m = ramping and n = ?n and v = 50 and a = 0
        and b = True and dmin = MIN_UPDATING_INTERVAL and dmax = MAX_UPDATING_INTERVAL
        and tg = 150 and ts = 150]
  note after_stop = stop_touches_fields_only [where m = ramping and n = "snd (Motor_stop ramping)"
        and v = 50 and a = 0 and b = True and dmin = MIN_UPDATING_INTERVAL
        and dmax = MAX_UPDATING_INTERVAL and tg = 150 and ts = 150]
  have same: "forwardPwm ?n = forwardPwm ramping"
    using after_stop by auto
  have still: "duty (forwardPwm (snd (Motor_stop ramping))) = Some 1"
    using after_stop by (auto simp: ramping_eq duty_def)
  have zero: "current_speed (snd (Motor_stop ramping)) = 0"
    using after_stop by auto
  show ?thesis
    using opened closed same still zero at_202 at_150 by auto
qed

subsection \<open>The flag behind isUpdating()\<close>

text \<open>
  Claim C3, as stated, asks that \<^verbatim>\<open>isUpdating()\<close> is true exactly when
  \<^verbatim>\<open>current_speed != setpoint_speed\<close>, also right after \<^verbatim>\<open>setSpeed()\<close>. After
  \<^verbatim>\<open>init()\<close> and \<^verbatim>\<open>setSpeed(50)\<close> the speeds differ and the flag is false; after
  \<^verbatim>\<open>init()\<close>, \<^verbatim>\<open>setSpeed(1)\<close> and the one qualifying \<^verbatim>\<open>update()\<close> that completes
  the ramp the speeds agree and the flag is true.
\<close>

theorem flag_is_stored_counterexample:
  "\<not> Motor_isUpdating (Motor_calls MIN_UPDATING_INTERVAL MAX_UPDATING_INTERVAL
                          [Init, SetSpeed 50] zeroed) \<and>
   current_speed (Motor_calls MIN_UPDATING_INTERVAL MAX_UPDATING_INTERVAL [Init, SetSpeed 50] zeroed)
     \<noteq> setpoint_speed (Motor_calls MIN_UPDATING_INTERVAL MAX_UPDATING_INTERVAL
                          [Init, SetSpeed 50] zeroed) \<and>
   qualifies MIN_UPDATING_INTERVAL MAX_UPDATING_INTERVAL 101
     (Motor_calls MIN_UPDATING_INTERVAL MAX_UPDATING_INTERVAL [Init, SetSpeed 1] zeroed) \<and>
   Motor_isUpdating (Motor_calls MIN_UPDATING_INTERVAL MAX_UPDATING_INTERVAL
                       [Init, SetSpeed 1, Update 101 101] zeroed) \<and>
   current_speed (Motor_calls MIN_UPDATING_INTERVAL MAX_UPDATING_INTERVAL
                       [Init, SetSpeed 1, Update 101 101] zeroed)
     = setpoint_speed (Motor_calls MIN_UPDATING_INTERVAL MAX_UPDATING_INTERVAL
                       [Init, SetSpeed 1, Update 101 101] zeroed)"
  by (simp add: Motor_isUpdating_def Motor_update_def Motor_init_def zeroed_def eval_defs
      pwm_begin_def pulse_perc_def)

lemma update_flag_post:
  assumes "qualifies dmin dmax tg m"
  shows "Motor_isUpdating (Motor_update dmin dmax tg ts m) \<longleftrightarrow>
           current_speed (Motor_update dmin dmax tg ts m) \<noteq> setpoint_speed (Motor_update dmin dmax tg ts m)
           \<or> \<bar>sint (setpoint_speed m) - sint (current_speed m)\<bar> = 1"
proof -
  let ?m' = "Motor_update dmin dmax tg ts m"
  have ne: "current_speed ?m' \<noteq> setpoint_speed ?m' \<longleftrightarrow> sint (current_speed ?m') \<noteq> sint (setpoint_speed m)"
    using signed_word_eqI [of "current_speed ?m'" "setpoint_speed m"]
    by (auto simp: update_setpoint_speed)
  have ne0: "setpoint_speed m \<noteq> current_speed m \<longleftrightarrow> sint (setpoint_speed m) \<noteq> sint (current_speed m)"
    using signed_word_eqI [of "setpoint_speed m" "current_speed m"] by auto
  show ?thesis
    unfolding ne using assms
    by (simp add: Motor_isUpdating_def update_status update_sint_current_speed ne0)
qed

text \<open>
  Claim C3, amended: \<^verbatim>\<open>isUpdating()\<close> returns a stored flag, which an \<^verbatim>\<open>update()\<close>
  passing the time gate writes. Such a call sets it to whether
  \<^verbatim>\<open>current_speed != setpoint_speed\<close> held when the call began, so afterwards it
  agrees with the two speeds except after the tick that completes a ramp, where it is
  still true. \<^verbatim>\<open>setSpeed()\<close>, \<^verbatim>\<open>setAcceleration()\<close> and an \<^verbatim>\<open>update()\<close> that does
  not pass the gate leave it as it is, so it is not recomputed right after
  \<^verbatim>\<open>setSpeed()\<close> changes the setpoint.
\<close>

theorem flag_written_by_tick_only:
  "Motor_isUpdating (Motor_update dmin dmax tg ts m) =
     (if qualifies dmin dmax tg m then current_speed m \<noteq> setpoint_speed m else Motor_isUpdating m) \<and>
   (qualifies dmin dmax tg m \<longrightarrow>
      (Motor_isUpdating (Motor_update dmin dmax tg ts m) \<longleftrightarrow>
         current_speed (Motor_update dmin dmax tg ts m) \<noteq> setpoint_speed (Motor_update dmin dmax tg ts m)
         \<or> \<bar>sint (setpoint_speed m) - sint (current_speed m)\<bar> = 1)) \<and>
   Motor_isUpdating (Motor_setSpeed v m) = Motor_isUpdating m \<and>
   Motor_isUpdating (Motor_setAcceleration a m) = Motor_isUpdating m"
  using update_flag_post [of dmin dmax tg m ts]
  by (auto simp: Motor_isUpdating_def update_status Motor_setSpeed_def Motor_setAcceleration_def)

theorem flag_written_by_tick_only_witness:
  "qualifies MIN_UPDATING_INTERVAL MAX_UPDATING_INTERVAL 202 ramping \<and>
   current_speed ramping \<noteq> setpoint_speed ramping \<and>
   Motor_isUpdating (Motor_update MIN_UPDATING_INTERVAL MAX_UPDATING_INTERVAL 202 202 ramping)"
proof -
  have gate: "qualifies MIN_UPDATING_INTERVAL MAX_UPDATING_INTERVAL 202 ramping"
    by (simp add: ramping_eq eval_defs)
  have differ: "current_speed ramping \<noteq> setpoint_speed ramping"
    by (simp add: ramping_eq)
  show ?thesis
    using gate differ
      flag_written_by_tick_only [of MIN_UPDATING_INTERVAL MAX_UPDATING_INTERVAL 202 202 ramping]
    by simp
qed

subsection \<open>The ramp stays in range and never overshoots\<close>

lemma update_keeps_range:
  assumes "speeds_in_range m"
  shows "speeds_in_range (Motor_update dmin dmax tg ts m)"
  using assms
  by (simp add: speeds_in_range_def in_speed_range_def update_sint_current_speed
      update_setpoint_speed)

lemma call_keeps_range:
  assumes "speeds_in_range m"
  shows "speeds_in_range (Motor_call dmin dmax c m)"
proof (cases c)
  case Init
  with assms show ?thesis
    by (simp add: speeds_in_range_def Motor_init_def Let_def)
next
  case (Update tg ts)
  with assms show ?thesis by (simp add: update_keeps_range)
next
  case (SetSpeed v)
  with assms setSpeed_in_range [of v m] show ?thesis
    by (simp add: speeds_in_range_def) (simp add: Motor_setSpeed_def)
next
  case (SetAcceleration a)
  with assms show ?thesis
    by (simp add: speeds_in_range_def Motor_setAcceleration_def)
next
  case Stop
  then show ?thesis
    by (simp add: speeds_in_range_def Motor_stop_def Let_def in_speed_range_def
        MIN_SPEED_def MAX_SPEED_def)
qed

lemma calls_keep_range:
  "speeds_in_range m \<Longrightarrow> speeds_in_range (Motor_calls dmin dmax cs m)"
  by (induction cs arbitrary: m) (simp_all add: call_keeps_range)

lemma update_step_bound:
  "\<bar>sint (current_speed (Motor_update dmin dmax tg ts n)) - sint (current_speed n)\<bar> \<le> 1"
  by (simp add: update_sint_current_speed)

lemma update_no_overshoot:
  "\<bar>sint (setpoint_speed n) - sint (current_speed (Motor_update dmin dmax tg ts n))\<bar>
     \<le> \<bar>sint (setpoint_speed n) - sint (current_speed n)\<bar> \<and>
   (sint (current_speed n) \<le> sint (setpoint_speed n) \<longrightarrow>
      sint (current_speed (Motor_update dmin dmax tg ts n)) \<le> sint (setpoint_speed n)) \<and>
   (sint (setpoint_speed n) \<le> sint (current_speed n) \<longrightarrow>
      sint (setpoint_speed n) \<le> sint (current_speed (Motor_update dmin dmax tg ts n)))"
  by (simp add: update_sint_current_speed)

lemma demo_eq: "Motor_calls MIN_UPDATING_INTERVAL MAX_UPDATING_INTERVAL demo_calls zeroed =
  \<lparr>forwardPwm = [Begin 33000 0, Pulse_perc 1, Pulse_perc 2],
    backwardPwm = [Begin 33000 0, Pulse_perc 0, Pulse_perc 0],
    enabled = True, status = True, current_speed = 2, setpoint_speed = 100,
    acceleration = 100, update_delay = 100, frequency = 33000,
    last_ms = 252\<rparr>"
  by (simp add: demo_calls_def Motor_update_def Motor_init_def Motor_setAcceleration_def
      zeroed_def eval_defs pwm_begin_def pulse_perc_def)

text \<open>
  Claim C1: \<^verbatim>\<open>setpoint_speed\<close> is written by \<^verbatim>\<open>setSpeed\<close>, which clamps it to
  [-100,100], and by \<^verbatim>\<open>stop\<close>, which sets it to 0. For every sequence of \<^verbatim>\<open>init\<close>,
  \<^verbatim>\<open>setSpeed\<close>, \<^verbatim>\<open>setAcceleration\<close>, \<^verbatim>\<open>update\<close> and \<^verbatim>\<open>stop\<close> calls starting from
  a state with \<^verbatim>\<open>current_speed\<close> in [-100,100] and such a setpoint, \<^verbatim>\<open>current_speed\<close>
  is in [-100,100] after every call. In every state \<open>n\<close>, one \<^verbatim>\<open>update()\<close> changes
  \<^verbatim>\<open>current_speed\<close> by at most 1, not at all when the time gate is closed, and never
  moves it past \<^verbatim>\<open>setpoint_speed\<close>: the distance between the two does not grow.
\<close>

theorem speed_stays_in_range:
  assumes "in_speed_range (current_speed m)" and "in_speed_range (setpoint_speed m)"
  shows "(\<forall>k \<le> length cs.
            in_speed_range (current_speed (Motor_calls dmin dmax (take k cs) m)) \<and>
            in_speed_range (setpoint_speed (Motor_calls dmin dmax (take k cs) m))) \<and>
         \<bar>sint (current_speed (Motor_update dmin dmax tg ts n)) - sint (current_speed n)\<bar> \<le> 1 \<and>
         (\<not> qualifies dmin dmax tg n \<longrightarrow>
            current_speed (Motor_update dmin dmax tg ts n) = current_speed n) \<and>
         \<bar>sint (setpoint_speed n) - sint (current_speed (Motor_update dmin dmax tg ts n))\<bar>
           \<le> \<bar>sint (setpoint_speed n) - sint (current_speed n)\<bar> \<and>
         (sint (current_speed n) \<le> sint (setpoint_speed n) \<longrightarrow>
            sint (current_speed (Motor_update dmin dmax tg ts n)) \<le> sint (setpoint_speed n)) \<and>
         (sint (setpoint_speed n) \<le> sint (current_speed n) \<longrightarrow>
            sint (setpoint_speed n) \<le> sint (current_speed (Motor_update dmin dmax tg ts n)))"
proof -
  have "speeds_in_range m"
    using assms by (simp add: speeds_in_range_def)
  then have "\<forall>k \<le> length cs. speeds_in_range (Motor_calls dmin dmax (take k cs) m)"
    by (simp add: calls_keep_range)
  then have seq: "\<forall>k \<le> length cs.
            in_speed_range (current_speed (Motor_calls dmin dmax (take k cs) m)) \<and>
            in_speed_range (setpoint_speed (Motor_calls dmin dmax (take k cs) m))"
    by (simp add: speeds_in_range_def)
  have closed: "\<not> qualifies dmin dmax tg n \<longrightarrow>
            current_speed (Motor_update dmin dmax tg ts n) = current_speed n"
    by (simp add: update_current_speed)
  show ?thesis
    using seq closed update_step_bound [of dmin dmax tg ts n]
      update_no_overshoot [of n dmin dmax tg ts]
    by blast
qed

theorem speed_stays_in_range_witness:
  "in_speed_range (current_speed zeroed) \<and> in_speed_range (setpoint_speed zeroed) \<and>
   sint (current_speed (Motor_calls MIN_UPDATING_INTERVAL MAX_UPDATING_INTERVAL demo_calls zeroed)) = 2 \<and>
   in_speed_range (current_speed (Motor_calls MIN_UPDATING_INTERVAL MAX_UPDATING_INTERVAL demo_calls zeroed)) \<and>
   \<not> qualifies MIN_UPDATING_INTERVAL MAX_UPDATING_INTERVAL 150 ramping \<and>
   current_speed (Motor_update MIN_UPDATING_INTERVAL MAX_UPDATING_INTERVAL 150 150 ramping) = current_speed ramping \<and>
   sint (current_speed ramping) \<le> sint (setpoint_speed ramping) \<and>
   sint (current_speed (Motor_update MIN_UPDATING_INTERVAL MAX_UPDATING_INTERVAL 202 202 ramping))
     \<le> sint (setpoint_speed ramping) \<and>
   sint (setpoint_speed (Motor_setSpeed (- 5) ramping)) \<le> sint (current_speed (Motor_setSpeed (- 5) ramping)) \<and>
   sint (setpoint_speed (Motor_setSpeed (- 5) ramping))
     \<le> sint (current_speed (Motor_update MIN_UPDATING_INTERVAL MAX_UPDATING_INTERVAL 202 202
                               (Motor_setSpeed (- 5) ramping)))"
proof -
  have start: "in_speed_range (current_speed zeroed)" "in_speed_range (setpoint_speed zeroed)"
    by (simp_all add: zeroed_def in_speed_range_def MIN_SPEED_def MAX_SPEED_def)
  have len: "length demo_calls = 6"
    by (simp add: demo_calls_def)
  have closed: "\<not> qualifies MIN_UPDATING_INTERVAL MAX_UPDATING_INTERVAL 150 ramping"
    by (simp add: ramping_eq eval_defs)
  have below: "sint (current_speed ramping) \<le> sint (setpoint_speed ramping)"
    by (simp add: ramping_eq)
  have above: "sint (setpoint_speed (Motor_setSpeed (- 5) ramping))
                 \<le> sint (current_speed (Motor_setSpeed (- 5) ramping))"
    by (simp add: ramping_eq eval_defs)
  note run = speed_stays_in_range [OF start, where cs = demo_calls
      and dmin = MIN_UPDATING_INTERVAL and dmax = MAX_UPDATING_INTERVAL
      and n = ramping and tg = 150 and ts = 150]
  note up = speed_stays_in_range [OF start, where cs = demo_calls
      and dmin = MIN_UPDATING_INTERVAL and dmax = MAX_UPDATING_INTERVAL
      and n = ramping and tg = 202 and ts = 202]
  note down = speed_stays_in_range [OF start, where cs = demo_calls
      and dmin = MIN_UPDATING_INTERVAL and dmax = MAX_UPDATING_INTERVAL
      and n = "Motor_setSpeed (- 5) ramping" and tg = 202 and ts = 202]
  from run have "\<forall>k \<le> length demo_calls.
      in_speed_range (current_speed (Motor_calls MIN_UPDATING_INTERVAL MAX_UPDATING_INTERVAL
                                       (take k demo_calls) zeroed))"
    by blast
  then have "in_speed_range (current_speed (Motor_calls MIN_UPDATING_INTERVAL MAX_UPDATING_INTERVAL
                                       (take (length demo_calls) demo_calls) zeroed))"
    by blast
  then have final: "in_speed_range (current_speed
      (Motor_calls MIN_UPDATING_INTERVAL MAX_UPDATING_INTERVAL demo_calls zeroed))"
    by simp
  have two: "sint (current_speed (Motor_calls MIN_UPDATING_INTERVAL MAX_UPDATING_INTERVAL demo_calls zeroed)) = 2"
    by (simp add: demo_eq)
  show ?thesis
    using start final two closed below above run up down by blast
qed

subsection \<open>The update delay as a function of the acceleration\<close>










subsection \<open>Ramping from 0 to 50\<close>

lemma ticks_snoc:
  "ticks dmin dmax (ts @ [(tg, tst)]) m = Motor_update dmin dmax tg tst (ticks dmin dmax ts m)"
  by (induction ts arbitrary: m) auto

lemma all_qualify_snoc:
  "all_qualify dmin dmax (ts @ [(tg, tst)]) m \<longleftrightarrow>
     all_qualify dmin dmax ts m \<and> qualifies dmin dmax tg (ticks dmin dmax ts m)"
  by (induction ts arbitrary: m) auto

lemma ticks_setpoint_speed: "setpoint_speed (ticks dmin dmax ts m) = setpoint_speed m"
  by (induction ts arbitrary: m) (auto simp: update_setpoint_speed)

lemma ramp_up_progress:
  assumes "all_qualify dmin dmax ts m"
    and "sint (current_speed m) \<le> sint (setpoint_speed m)"
  shows "sint (current_speed (ticks dmin dmax ts m))
           = min (sint (current_speed m) + int (length ts)) (sint (setpoint_speed m))"
  using assms(1)
proof (induction ts rule: rev_induct)
  case Nil
  with assms(2) show ?case by simp
next
  case (snoc t ts)
  obtain tg tst where t: "t = (tg, tst)"
    by (cases t)
  from snoc.prems have q: "all_qualify dmin dmax ts m"
    and g: "qualifies dmin dmax tg (ticks dmin dmax ts m)"
    by (simp_all add: t all_qualify_snoc)
  from snoc.IH [OF q] g show ?case
    by (simp add: t ticks_snoc update_sint_current_speed ticks_setpoint_speed)
qed

lemma ramp_up_flag:
  assumes "all_qualify dmin dmax ts m"
    and "sint (current_speed m) \<le> sint (setpoint_speed m)"
    and "ts \<noteq> []"
  shows "status (ticks dmin dmax ts m)
           \<longleftrightarrow> sint (current_speed m) + int (length ts) \<le> sint (setpoint_speed m)"
proof -
  obtain us tg tst where ts: "ts = us @ [(tg, tst)]"
    using assms(3) by (cases ts rule: rev_cases) auto
  from assms(1) have q: "all_qualify dmin dmax us m"
    and g: "qualifies dmin dmax tg (ticks dmin dmax us m)"
    by (simp_all add: ts all_qualify_snoc)
  have "status (ticks dmin dmax ts m)
          \<longleftrightarrow> setpoint_speed m \<noteq> current_speed (ticks dmin dmax us m)"
    using g by (simp add: ts ticks_snoc update_status ticks_setpoint_speed)
  also have "\<dots> \<longleftrightarrow> sint (setpoint_speed m) \<noteq> sint (current_speed (ticks dmin dmax us m))"
    using signed_word_eqI [of "setpoint_speed m" "current_speed (ticks dmin dmax us m)"] by auto
  also have "\<dots> \<longleftrightarrow> sint (current_speed m) + int (length ts) \<le> sint (setpoint_speed m)"
    using assms(2) by (auto simp: ramp_up_progress [OF q assms(2)] ts min_def)
  finally show ?thesis .
qed

lemma update_last_ms:
  "qualifies dmin dmax tg m \<Longrightarrow> last_ms (Motor_update dmin dmax tg ts m) = ts"
  by (simp add: Motor_update_def qualifies_def Let_def)

lemma length_steady: "length (steady t n) = n"
  by (induction n arbitrary: t) simp_all

lemma steady_gate:
  assumes "acceleration m = 100" and "last_ms m = t"
  shows "qualifies MIN_UPDATING_INTERVAL MAX_UPDATING_INTERVAL (t + 101) m"
  using assms by (simp add: eval_defs)

lemma steady_qualifies:
  "acceleration m = 100 \<Longrightarrow> last_ms m = t \<Longrightarrow>
     all_qualify MIN_UPDATING_INTERVAL MAX_UPDATING_INTERVAL (steady t n) m"
proof (induction n arbitrary: t m)
  case 0
  show ?case by simp
next
  case (Suc n)
  have g: "qualifies MIN_UPDATING_INTERVAL MAX_UPDATING_INTERVAL (t + 101) m"
    using Suc.prems by (rule steady_gate)
  let ?m' = "Motor_update MIN_UPDATING_INTERVAL MAX_UPDATING_INTERVAL (t + 101) (t + 101) m"
  have "acceleration ?m' = 100" "last_ms ?m' = t + 101"
    using Suc.prems(1) g by (simp_all add: update_acceleration update_last_ms)
  then have "all_qualify MIN_UPDATING_INTERVAL MAX_UPDATING_INTERVAL (steady (t + 101) n) ?m'"
    by (rule Suc.IH)
  with g show ?case by simp
qed

lemma started_fields:
  "current_speed started = 0" "acceleration (Motor_setSpeed 50 started) = 100"
  "last_ms (Motor_setSpeed 50 started) = 0"
  by (simp_all add: started_def Motor_init_def Motor_setSpeed_def zeroed_def Let_def
      MAX_ACCELERATION_def)

text \<open>
  Claim C7: from \<^verbatim>\<open>current_speed = 0\<close>, after \<^verbatim>\<open>setSpeed(50)\<close>, calls of
  \<^verbatim>\<open>update()\<close> that all pass the time gate bring \<^verbatim>\<open>current_speed\<close> to
  \<open>min k 50\<close> after \<open>k\<close> calls: it is 50 from the 50th call on and not before.
  \<^verbatim>\<open>isUpdating()\<close> is true after each of the first 50 calls and false after every
  later one. This holds for every acceleration and every pair of configured delays,
  acceleration 100 included.
\<close>

theorem ramp_to_50:
  assumes "current_speed m = 0"
    and "all_qualify dmin dmax ts (Motor_setSpeed 50 m)"
  shows "sint (current_speed (ticks dmin dmax ts (Motor_setSpeed 50 m))) = min (int (length ts)) 50 \<and>
         (current_speed (ticks dmin dmax ts (Motor_setSpeed 50 m)) = 50 \<longleftrightarrow> 50 \<le> length ts) \<and>
         (ts \<noteq> [] \<longrightarrow>
            (Motor_isUpdating (ticks dmin dmax ts (Motor_setSpeed 50 m)) \<longleftrightarrow> length ts \<le> 50))"
proof -
  let ?m = "Motor_setSpeed 50 m"
  have sp: "sint (setpoint_speed ?m) = 50"
    by (simp add: Motor_setSpeed_def constrain_def MIN_SPEED_def MAX_SPEED_def)
  have cu: "sint (current_speed ?m) = 0"
    using assms(1) by (simp add: Motor_setSpeed_def)
  have le: "sint (current_speed ?m) \<le> sint (setpoint_speed ?m)"
    by (simp add: sp cu)
  have pos: "sint (current_speed (ticks dmin dmax ts ?m)) = min (int (length ts)) 50"
    using ramp_up_progress [OF assms(2) le] by (simp add: sp cu)
  have "current_speed (ticks dmin dmax ts ?m) = 50
          \<longleftrightarrow> sint (current_speed (ticks dmin dmax ts ?m)) = sint (50 :: 8 word)"
    using signed_word_eqI [of "current_speed (ticks dmin dmax ts ?m)" "50 :: 8 word"] by auto
  then have reach: "current_speed (ticks dmin dmax ts ?m) = 50 \<longleftrightarrow> 50 \<le> length ts"
    by (auto simp: pos min_def)
  have flag: "ts \<noteq> [] \<longrightarrow> (Motor_isUpdating (ticks dmin dmax ts ?m) \<longleftrightarrow> length ts \<le> 50)"
    using ramp_up_flag [OF assms(2) le] by (simp add: Motor_isUpdating_def sp cu)
  show ?thesis
    using pos reach flag by blast
qed

theorem ramp_to_50_witness:
  "current_speed started = 0 \<and>
   all_qualify MIN_UPDATING_INTERVAL MAX_UPDATING_INTERVAL (steady 0 51) (Motor_setSpeed 50 started) \<and>
   sint (current_speed (ticks MIN_UPDATING_INTERVAL MAX_UPDATING_INTERVAL (steady 0 49)
                          (Motor_setSpeed 50 started))) = 49 \<and>
   Motor_isUpdating (ticks MIN_UPDATING_INTERVAL MAX_UPDATING_INTERVAL (steady 0 49)
                          (Motor_setSpeed 50 started)) \<and>
   current_speed (ticks MIN_UPDATING_INTERVAL MAX_UPDATING_INTERVAL (steady 0 50)
                          (Motor_setSpeed 50 started)) = 50 \<and>
   Motor_isUpdating (ticks MIN_UPDATING_INTERVAL MAX_UPDATING_INTERVAL (steady 0 50)
                          (Motor_setSpeed 50 started)) \<and>
   current_speed (ticks MIN_UPDATING_INTERVAL MAX_UPDATING_INTERVAL (steady 0 51)
                          (Motor_setSpeed 50 started)) = 50 \<and>
   \<not> Motor_isUpdating (ticks MIN_UPDATING_INTERVAL MAX_UPDATING_INTERVAL (steady 0 51)
                          (Motor_setSpeed 50 started))"
proof -
  have q: "all_qualify MIN_UPDATING_INTERVAL MAX_UPDATING_INTERVAL (steady 0 n)
             (Motor_setSpeed 50 started)" for n
    by (rule steady_qualifies) (simp_all add: started_fields)
  have ne: "steady 0 49 \<noteq> []" "steady 0 50 \<noteq> []" "steady 0 51 \<noteq> []"
    using length_steady [of 0 49] length_steady [of 0 50] length_steady [of 0 51] by auto
  note r49 = ramp_to_50 [OF started_fields(1) q [of 49]]
  note r50 = ramp_to_50 [OF started_fields(1) q [of 50]]
  note r51 = ramp_to_50 [OF started_fields(1) q [of 51]]
  show ?thesis
    using started_fields(1) q [of 51] ne r49 r50 r51 by (simp add: length_steady)
qed

section \<open>Properties of the distance sensor\<close>

lemma cycles_computeDistance: "cycles (computeDistance f r s) = Suc (cycles s)"
  by (simp add: computeDistance_def cycles_def Let_def)

lemma computeDistance_fields:
  "mode (computeDistance f r s) = mode s"
  "sonar_status (computeDistance f r s) = sonar_status s"
  "distance (computeDistance f r s) = f (pulse r)"
  by (simp_all add: computeDistance_def Let_def)

subsection \<open>getDistance()\<close>




subsection \<open>update() in MANUAL mode\<close>

text \<open>
  Claim C8: in mode \<open>MANUAL\<close>, \<^verbatim>\<open>update()\<close> performs a trigger/measure cycle if
  and only if \<^verbatim>\<open>status_\<close> is true, and \<^verbatim>\<open>status_\<close> is false afterwards. Called
  with \<^verbatim>\<open>status_\<close> false it changes nothing: the stored distance is as before and
  \<^verbatim>\<open>isUpdating()\<close> returns false.
\<close>

theorem manual_update_needs_request:
  assumes "mode s = MANUAL"
  shows "(sonar_status s \<longrightarrow>
            UltrasonicSensor_update f r s = (computeDistance f r s)\<lparr>sonar_status := False\<rparr>) \<and>
         (\<not> sonar_status s \<longrightarrow>
            UltrasonicSensor_update f r s = s \<and>
            distance (UltrasonicSensor_update f r s) = distance s \<and>
            \<not> UltrasonicSensor_isUpdating (UltrasonicSensor_update f r s)) \<and>
         (cycles (UltrasonicSensor_update f r s) = Suc (cycles s) \<longleftrightarrow> sonar_status s) \<and>
         (cycles (UltrasonicSensor_update f r s) = cycles s \<longleftrightarrow> \<not> sonar_status s) \<and>
         \<not> sonar_status (UltrasonicSensor_update f r s)"
  using assms cycles_computeDistance [of f r s]
  by (auto simp: UltrasonicSensor_update_def UltrasonicSensor_isUpdating_def Let_def cycles_def)

theorem manual_update_needs_request_witness:
  "mode idle_sensor = MANUAL \<and> \<not> sonar_status idle_sensor \<and>
   UltrasonicSensor_update cm_of_pulse echo idle_sensor = idle_sensor \<and>
   mode (startMeasurement idle_sensor) = MANUAL \<and> sonar_status (startMeasurement idle_sensor) \<and>
   cycles (UltrasonicSensor_update cm_of_pulse echo (startMeasurement idle_sensor))
     = Suc (cycles (startMeasurement idle_sensor)) \<and>
   \<not> sonar_status (UltrasonicSensor_update cm_of_pulse echo (startMeasurement idle_sensor))"
proof -
  have m: "mode idle_sensor = MANUAL" "mode (startMeasurement idle_sensor) = MANUAL"
    by (simp_all add: idle_sensor_def startMeasurement_def)
  have st: "\<not> sonar_status idle_sensor" "sonar_status (startMeasurement idle_sensor)"
    by (simp_all add: idle_sensor_def startMeasurement_def)
  note idle = manual_update_needs_request [OF m(1), of cm_of_pulse echo]
  note requested = manual_update_needs_request [OF m(2), of cm_of_pulse echo]
  show ?thesis
    using m st idle requested by auto
qed

subsection \<open>startMeasurement()\<close>

text \<open>
  Claim C10: in mode \<open>AUTOMATIC\<close>, \<^verbatim>\<open>startMeasurement()\<close> returns the state it was
  given, unchanged. It sets \<^verbatim>\<open>status_\<close> only in mode \<open>MANUAL\<close>, and changes no
  other field there. The function is total: it has no error result.
\<close>

theorem startMeasurement_manual_only:
  "(mode s = AUTOMATIC \<longrightarrow> startMeasurement s = s) \<and>
   (mode s = MANUAL \<longrightarrow> startMeasurement s = s\<lparr>sonar_status := True\<rparr>) \<and>
   (UltrasonicSensor_isUpdating (startMeasurement s) \<longleftrightarrow> sonar_status s \<or> mode s = MANUAL) \<and>
   mode (startMeasurement s) = mode s \<and>
   distance (startMeasurement s) = distance s \<and>
   io (startMeasurement s) = io s"
  by (cases "mode s") (simp_all add: startMeasurement_def UltrasonicSensor_isUpdating_def)

theorem startMeasurement_manual_only_witness:
  "mode (setMode AUTOMATIC idle_sensor) = AUTOMATIC \<and>
   startMeasurement (setMode AUTOMATIC idle_sensor) = setMode AUTOMATIC idle_sensor \<and>
   \<not> UltrasonicSensor_isUpdating (startMeasurement (setMode AUTOMATIC idle_sensor)) \<and>
   mode idle_sensor = MANUAL \<and>
   UltrasonicSensor_isUpdating (startMeasurement idle_sensor)"
proof -
  have m: "mode (setMode AUTOMATIC idle_sensor) = AUTOMATIC" "mode idle_sensor = MANUAL"
    "\<not> sonar_status (setMode AUTOMATIC idle_sensor)"
    by (simp_all add: idle_sensor_def setMode_def)
  note auto_mode = startMeasurement_manual_only [of "setMode AUTOMATIC idle_sensor"]
  note manual_mode = startMeasurement_manual_only [of idle_sensor]
  show ?thesis
    using m auto_mode manual_mode by auto
qed

subsection \<open>update() in AUTOMATIC mode\<close>

text \<open>
  Claim C5, as stated, asks that \<^verbatim>\<open>status_\<close> remains false while the mode is
  \<open>AUTOMATIC\<close>, also when \<^verbatim>\<open>startMeasurement()\<close> was called in mode \<open>MANUAL\<close>
  before the switch. That call sets the flag, and nothing in mode \<open>AUTOMATIC\<close>
  clears it: \<^verbatim>\<open>isUpdating()\<close> returns true after the switch and after
  \<^verbatim>\<open>update()\<close>.
\<close>

theorem automatic_flag_counterexample:
  "mode (UltrasonicSensor_calls cm_of_pulse [StartMeasurement, SetMode AUTOMATIC, SUpdate echo]
           idle_sensor) = AUTOMATIC \<and>
   UltrasonicSensor_isUpdating
     (UltrasonicSensor_calls cm_of_pulse [StartMeasurement, SetMode AUTOMATIC, SUpdate echo]
        idle_sensor)"
  by (simp add: idle_sensor_def startMeasurement_def setMode_def UltrasonicSensor_update_def
      computeDistance_def Let_def UltrasonicSensor_isUpdating_def)

lemma automatic_call:
  assumes "mode s = AUTOMATIC" and "stays_automatic [c]"
  shows "mode (UltrasonicSensor_call f c s) = AUTOMATIC \<and>
         sonar_status (UltrasonicSensor_call f c s) = sonar_status s \<and>
         cycles (UltrasonicSensor_call f c s) = cycles s + (if is_update c then 1 else 0)"
  using assms
  by (cases c)
     (simp_all add: UltrasonicSensor_update_def computeDistance_fields cycles_computeDistance
        setMode_def startMeasurement_def getDistance_def Let_def, simp_all add: cycles_def)

lemma stays_automatic_Cons:
  "stays_automatic (c # cs) \<longleftrightarrow> stays_automatic [c] \<and> stays_automatic cs"
  by (cases c) simp_all

lemma automatic_calls:
  assumes "mode s = AUTOMATIC" and "stays_automatic cs"
  shows "mode (UltrasonicSensor_calls f cs s) = AUTOMATIC \<and>
         sonar_status (UltrasonicSensor_calls f cs s) = sonar_status s \<and>
         cycles (UltrasonicSensor_calls f cs s) = cycles s + length (filter is_update cs)"
  using assms
proof (induction cs arbitrary: s)
  case Nil
  then show ?case by simp
next
  case (Cons c cs)
  from Cons.prems(2) have c: "stays_automatic [c]" and cs: "stays_automatic cs"
    using stays_automatic_Cons [of c cs] by simp_all
  note step = automatic_call [OF Cons.prems(1) c, of f]
  from step have "mode (UltrasonicSensor_call f c s) = AUTOMATIC"
    by simp
  from Cons.IH [OF this cs] step show ?case
    by simp
qed

text \<open>
  Claim C5, amended: while the mode is \<open>AUTOMATIC\<close>, every call of \<^verbatim>\<open>update()\<close>
  performs one trigger/measure cycle, whatever \<^verbatim>\<open>status_\<close> holds: \<^verbatim>\<open>update()\<close>
  does not read the flag. No operation writes the flag in this mode, so
  \<^verbatim>\<open>isUpdating()\<close> keeps returning what it returned when the mode became
  \<open>AUTOMATIC\<close>: false if it was false, true if \<^verbatim>\<open>startMeasurement()\<close> was called in
  mode \<open>MANUAL\<close> before the switch.
\<close>

theorem automatic_always_measures:
  assumes "mode s = AUTOMATIC" and "stays_automatic cs"
  shows "UltrasonicSensor_update f r s = computeDistance f r s \<and>
         cycles (UltrasonicSensor_update f r s) = Suc (cycles s) \<and>
         UltrasonicSensor_update f r (s\<lparr>sonar_status := b\<rparr>)
           = (UltrasonicSensor_update f r s)\<lparr>sonar_status := b\<rparr> \<and>
         mode (UltrasonicSensor_calls f cs s) = AUTOMATIC \<and>
         cycles (UltrasonicSensor_calls f cs s) = cycles s + length (filter is_update cs) \<and>
         UltrasonicSensor_isUpdating (UltrasonicSensor_calls f cs s) = UltrasonicSensor_isUpdating s"
proof -
  have one: "UltrasonicSensor_update f r s = computeDistance f r s"
    using assms(1) by (simp add: UltrasonicSensor_update_def)
  have unread: "UltrasonicSensor_update f r (s\<lparr>sonar_status := b\<rparr>)
           = (UltrasonicSensor_update f r s)\<lparr>sonar_status := b\<rparr>"
    using assms(1) by (simp add: UltrasonicSensor_update_def computeDistance_def Let_def)
  show ?thesis
    using one unread automatic_calls [OF assms, of f] cycles_computeDistance [of f r s]
    by (simp add: UltrasonicSensor_isUpdating_def)
qed

theorem automatic_always_measures_witness:
  "mode (setMode AUTOMATIC idle_sensor) = AUTOMATIC \<and> stays_automatic demo_sensor_calls \<and>
   cycles (UltrasonicSensor_calls cm_of_pulse demo_sensor_calls (setMode AUTOMATIC idle_sensor)) = 2 \<and>
   \<not> UltrasonicSensor_isUpdating
       (UltrasonicSensor_calls cm_of_pulse demo_sensor_calls (setMode AUTOMATIC idle_sensor)) \<and>
   mode (setMode AUTOMATIC (startMeasurement idle_sensor)) = AUTOMATIC \<and>
   UltrasonicSensor_isUpdating
       (UltrasonicSensor_calls cm_of_pulse demo_sensor_calls
          (setMode AUTOMATIC (startMeasurement idle_sensor)))"
proof -
  have m: "mode (setMode AUTOMATIC idle_sensor) = AUTOMATIC"
    "mode (setMode AUTOMATIC (startMeasurement idle_sensor)) = AUTOMATIC"
    by (simp_all add: setMode_def)
  have cs: "stays_automatic demo_sensor_calls"
    by (simp add: demo_sensor_calls_def)
  have n: "length (filter is_update demo_sensor_calls) = 2"
    by (simp add: demo_sensor_calls_def)
  have fl: "\<not> UltrasonicSensor_isUpdating (setMode AUTOMATIC idle_sensor)"
    "UltrasonicSensor_isUpdating (setMode AUTOMATIC (startMeasurement idle_sensor))"
    "cycles (setMode AUTOMATIC idle_sensor) = 0"
    by (simp_all add: UltrasonicSensor_isUpdating_def setMode_def startMeasurement_def
        idle_sensor_def cycles_def)
  note clear = automatic_always_measures [OF m(1) cs, of cm_of_pulse echo True]
  note pending = automatic_always_measures [OF m(2) cs, of cm_of_pulse echo True]
  show ?thesis
    using m cs n fl clear pending by simp
qed

end
